theory Spec2Isabelle
  imports Complex_Main
begin

section \<open>Python values used by the boost engine\<close>

text \<open>
  The engine (\<^verbatim>\<open>src/adsboost/app.py\<close>, class \<^verbatim>\<open>ADSBoostCelery\<close>) works on
  JSON-like dictionaries. A Python \<^verbatim>\<open>dict\<close> is an association list in insertion
  order with distinct keys, read with \<open>map_of\<close>. Python \<^verbatim>\<open>float\<close> values are
  idealised as \<open>real\<close>: rounding, overflow and NaN are not part of this model, while
  every \<^verbatim>\<open>ZeroDivisionError\<close> and \<^verbatim>\<open>KeyError\<close> the code can raise is a branch
  of it. Strings are ASCII.
\<close>

datatype py_error = KeyError | ZeroDivisionError

type_synonym ('k, 'v) dict = "('k \<times> 'v) list"

text \<open>\<^verbatim>\<open>d[k]\<close>: raises \<^verbatim>\<open>KeyError\<close> on a missing key.\<close>

definition getitem :: "('k, 'v) dict \<Rightarrow> 'k \<Rightarrow> py_error + 'v" where
  "getitem d k = (case map_of d k of None \<Rightarrow> Inl KeyError | Some v \<Rightarrow> Inr v)"

text \<open>\<^verbatim>\<open>d[k] = v\<close>: overwrite in place, or append a new key.\<close>

fun setitem :: "('k, 'v) dict \<Rightarrow> 'k \<Rightarrow> 'v \<Rightarrow> ('k, 'v) dict" where
  "setitem [] k v = [(k, v)]"
| "setitem ((k', v') # d) k v =
     (if k' = k then (k, v) # d else (k', v') # setitem d k v)"

text \<open>\<^verbatim>\<open>d.update(e)\<close>, and a dict comprehension as the updates of an empty dict.\<close>

definition dict_update :: "('k, 'v) dict \<Rightarrow> ('k, 'v) dict \<Rightarrow> ('k, 'v) dict" where
  "dict_update d e = fold (\<lambda>(k, v) acc. setitem acc k v) e d"

definition dict_comp :: "('k \<times> 'v) list \<Rightarrow> ('k, 'v) dict" where
  "dict_comp kvs = dict_update [] kvs"

text \<open>Truth value of an optional string: \<^verbatim>\<open>None\<close> and \<^verbatim>\<open>''\<close> are falsy.\<close>

definition truthy :: "string option \<Rightarrow> bool" where
  "truthy s = (case s of None \<Rightarrow> False | Some t \<Rightarrow> t \<noteq> [])"

definition lower_char :: "char \<Rightarrow> char" where
  "lower_char c =
     (case map_of (zip ''ABCDEFGHIJKLMNOPQRSTUVWXYZ'' ''abcdefghijklmnopqrstuvwxyz'') c of
        None \<Rightarrow> c | Some l \<Rightarrow> l)"

text \<open>\<^verbatim>\<open>s.lower()\<close> and \<^verbatim>\<open>s.replace(' ', '_')\<close>.\<close>

definition lower :: "string \<Rightarrow> string" where
  "lower s = map lower_char s"

definition replace_space :: "string \<Rightarrow> string" where
  "replace_space s = map (\<lambda>c. if c = CHR '' '' then CHR ''_'' else c) s"

definition endswith :: "string \<Rightarrow> string \<Rightarrow> bool" where
  "endswith s suf = (length suf \<le> length s \<and> drop (length s - length suf) s = suf)"


section \<open>Records and configuration\<close>

text \<open>
  The request is the dictionary parsed from the incoming message. Its shape follows the
  keys the code reads: an absent key is \<open>None\<close>. \<^verbatim>\<open>classifications\<close> and
  \<^verbatim>\<open>bib_data.database\<close> are a single string or a list of strings.
\<close>

datatype str_or_list = Str string | StrList "string list"

record bib_data_dict =
  bd_bibcode :: "string option"
  bd_scix_id :: "string option"
  bd_doctype :: "string option"
  bd_pubdate :: "string option"
  bd_entry_date :: "string option"
  bd_database :: "str_or_list option"
  bd_refereed :: "bool option"

record metrics_dict =
  m_refereed :: "bool option"

record record_dict =
  bibcode :: "string option"
  scix_id :: "string option"
  bib_data :: "bib_data_dict option"
  metrics :: "metrics_dict option"
  classifications :: "str_or_list option"

text \<open>
  \<^verbatim>\<open>self.config\<close>: each key may be absent. A rank inside \<^verbatim>\<open>COLLECTION_RANKINGS\<close> may
  be \<^verbatim>\<open>None\<close>, which the code tests for.
\<close>

record config =
  DOCTYPE_RANKING :: "(string, int) dict option"
  COLLECTION_RANKINGS :: "(string, (string, int option) dict) dict option"
  COLLECTIONS :: "string list option"
  BOOST_FACTOR_WEIGHTS :: "(string, real) dict option"
  RECENCY_BOOST_MULTIPLIER :: "real option"


section \<open>Dates\<close>

text \<open>
  \<^verbatim>\<open>datetime\<close> objects as the standard library has them. The ordinal of a date is
  the proleptic Gregorian day number (\<^verbatim>\<open>toordinal\<close>), and the difference of two
  datetimes is a \<^verbatim>\<open>timedelta\<close> whose \<^verbatim>\<open>days\<close> field is the floor of the
  difference in days.
\<close>

record datetime =
  year :: int
  month :: int
  day :: int
  hour :: int
  minute :: int
  second :: int
  microsecond :: int

definition is_leap :: "int \<Rightarrow> bool" where
  "is_leap y = (y mod 4 = 0 \<and> (y mod 100 \<noteq> 0 \<or> y mod 400 = 0))"

definition days_in_month :: "int \<Rightarrow> int \<Rightarrow> int" where
  "days_in_month y m =
     (if m = 2 then (if is_leap y then 29 else 28)
      else if m = 4 \<or> m = 6 \<or> m = 9 \<or> m = 11 then 30 else 31)"

definition days_before_year :: "int \<Rightarrow> int" where
  "days_before_year y = (y - 1) * 365 + (y - 1) div 4 - (y - 1) div 100 + (y - 1) div 400"

definition days_before_month :: "int \<Rightarrow> int \<Rightarrow> int" where
  "days_before_month y m =
     (if 1 \<le> m \<and> m \<le> 12
      then [0, 0, 31, 59, 90, 120, 151, 181, 212, 243, 273, 304, 334] ! nat m else 0)
       + (if m > 2 \<and> is_leap y then 1 else 0)"

definition toordinal :: "datetime \<Rightarrow> int" where
  "toordinal dt = days_before_year (year dt) + days_before_month (year dt) (month dt) + day dt"

definition seconds_of_day :: "datetime \<Rightarrow> int" where
  "seconds_of_day dt = second dt + minute dt * 60 + hour dt * 3600"

text \<open>\<^verbatim>\<open>(a - b).days\<close>.\<close>

definition timedelta_days :: "datetime \<Rightarrow> datetime \<Rightarrow> int" where
  "timedelta_days a b =
     ((toordinal a - toordinal b) * 86400000000
        + (seconds_of_day a - seconds_of_day b) * 1000000
        + (microsecond a - microsecond b)) div 86400000000"

definition dt_tuple :: "datetime \<Rightarrow> int list" where
  "dt_tuple dt = [year dt, month dt, day dt, hour dt, minute dt, second dt, microsecond dt]"

fun tuple_less :: "int list \<Rightarrow> int list \<Rightarrow> bool" where
  "tuple_less (x # xs) (y # ys) = (x < y \<or> (x = y \<and> tuple_less xs ys))"
| "tuple_less [] (y # ys) = True"
| "tuple_less xs [] = False"

text \<open>\<^verbatim>\<open>min(a, b)\<close> on datetimes: the first argument unless the second is smaller.\<close>

definition min_datetime :: "datetime \<Rightarrow> datetime \<Rightarrow> datetime" where
  "min_datetime a b = (if tuple_less (dt_tuple b) (dt_tuple a) then b else a)"

text \<open>
  The fields of a \<^verbatim>\<open>datetime\<close> object are range-checked by its constructor; this is
  the part of that invariant about the time of day.
\<close>

definition valid_time :: "datetime \<Rightarrow> bool" where
  "valid_time dt =
     (0 \<le> hour dt \<and> hour dt < 24 \<and> 0 \<le> minute dt \<and> minute dt < 60 \<and>
      0 \<le> second dt \<and> second dt < 60 \<and> 0 \<le> microsecond dt \<and> microsecond dt < 1000000)"

definition midnight :: "datetime \<Rightarrow> bool" where
  "midnight dt = (hour dt = 0 \<and> minute dt = 0 \<and> second dt = 0 \<and> microsecond dt = 0)"

definition same_date :: "datetime \<Rightarrow> datetime \<Rightarrow> bool" where
  "same_date a b = (year a = year b \<and> month a = month b \<and> day a = day b)"

definition digit_val :: "char \<Rightarrow> int option" where
  "digit_val c = map_of (zip ''0123456789'' [0, 1, 2, 3, 4, 5, 6, 7, 8, 9]) c"

text \<open>The strings the directive \<^verbatim>\<open>%m\<close> accepts: \<^verbatim>\<open>1[0-2]|0[1-9]|[1-9]\<close>.\<close>

definition month_token :: "string \<Rightarrow> int option" where
  "month_token s =
     (case s of
        [c] \<Rightarrow> (case digit_val c of Some v \<Rightarrow> (if 1 \<le> v then Some v else None) | None \<Rightarrow> None)
      | [c, d] \<Rightarrow>
          (case (digit_val c, digit_val d) of
             (Some a, Some b) \<Rightarrow>
               (if (a = 1 \<and> b \<le> 2) \<or> (a = 0 \<and> 1 \<le> b) then Some (10 * a + b) else None)
           | _ \<Rightarrow> None)
      | _ \<Rightarrow> None)"

text \<open>The strings \<^verbatim>\<open>%d\<close> accepts: \<^verbatim>\<open>3[0-1]|[1-2]\d|0[1-9]|[1-9]| [1-9]\<close>.\<close>

definition day_token :: "string \<Rightarrow> int option" where
  "day_token s =
     (case s of
        [c] \<Rightarrow> (case digit_val c of Some v \<Rightarrow> (if 1 \<le> v then Some v else None) | None \<Rightarrow> None)
      | [c, d] \<Rightarrow>
          (if c = CHR '' ''
           then (case digit_val d of Some v \<Rightarrow> (if 1 \<le> v then Some v else None) | None \<Rightarrow> None)
           else (case (digit_val c, digit_val d) of
                   (Some a, Some b) \<Rightarrow>
                     (if (a = 3 \<and> b \<le> 1) \<or> a = 1 \<or> a = 2 \<or> (a = 0 \<and> 1 \<le> b)
                      then Some (10 * a + b) else None)
                 | _ \<Rightarrow> None))
      | _ \<Rightarrow> None)"

definition year_token :: "string \<Rightarrow> int option" where
  "year_token s =
     (case map digit_val s of
        [Some a, Some b, Some c, Some d] \<Rightarrow> Some (1000 * a + 100 * b + 10 * c + d)
      | _ \<Rightarrow> None)"

text \<open>
  \<^verbatim>\<open>datetime.strptime(s, '%Y-%m-%d')\<close>; \<open>None\<close> stands for the \<^verbatim>\<open>ValueError\<close>
  the callers catch. The whole string must match, the year is at least 1 and the day
  exists in its month. The result is at midnight.
\<close>

definition strptime :: "string \<Rightarrow> datetime option" where
  "strptime s =
     (if length s < 5 \<or> s ! 4 \<noteq> CHR ''-'' then None
      else
        let rest = drop 5 s;
            ms = takeWhile (\<lambda>c. c \<noteq> CHR ''-'') rest;
            after = dropWhile (\<lambda>c. c \<noteq> CHR ''-'') rest
        in (case after of
              [] \<Rightarrow> None
            | _ # ds \<Rightarrow>
                (case (year_token (take 4 s), month_token ms, day_token ds) of
                   (Some y, Some m, Some d) \<Rightarrow>
                     (if 1 \<le> y \<and> d \<le> days_in_month y m
                      then Some \<lparr>year = y, month = m, day = d, hour = 0, minute = 0,
                                 second = 0, microsecond = 0\<rparr>
                      else None)
                 | _ \<Rightarrow> None)))"

section \<open>The scoring stages\<close>

subsection \<open>\<^verbatim>\<open>compute_refereed_boost\<close>\<close>

definition compute_refereed_boost :: "record_dict \<Rightarrow> real" where
  "compute_refereed_boost rec =
     (if (case metrics rec of None \<Rightarrow> False | Some m \<Rightarrow> m_refereed m = Some True) then 1
      else if (case bib_data rec of None \<Rightarrow> False | Some bd \<Rightarrow> bd_refereed bd = Some True) then 1
      else 0)"

subsection \<open>\<^verbatim>\<open>compute_doctype_boost\<close>\<close>

text \<open>\<^verbatim>\<open>sorted(set(doctype_rank.values()))\<close>.\<close>

definition unique_ranks :: "(string, int) dict \<Rightarrow> int list" where
  "unique_ranks doctype_rank = sort (remdups (map snd doctype_rank))"

text \<open>
  \<^verbatim>\<open>{rank: 1 - (i / (len(unique_ranks) - 1)) for i, rank in enumerate(unique_ranks)}\<close>.
  The quotient is evaluated for every element, the first one included, so a divisor of 0
  raises as soon as the list is not empty.
\<close>

definition rank_to_score :: "int list \<Rightarrow> py_error + (int, real) dict" where
  "rank_to_score ur =
     (if ur \<noteq> [] \<and> int (length ur) - 1 = 0 then Inl ZeroDivisionError
      else Inr (dict_comp (map (\<lambda>(i, rank). (rank, 1 - real i / real_of_int (int (length ur) - 1)))
                             (enumerate 0 ur))))"

text \<open>
  \<^verbatim>\<open>{doctype_name: rank_to_score[rank] for doctype_name, rank in doctype_rank.items()}\<close>.
\<close>

fun doctype_scores :: "(int, real) dict \<Rightarrow> (string, int) dict \<Rightarrow> py_error + (string \<times> real) list" where
  "doctype_scores r2s [] = Inr []"
| "doctype_scores r2s ((name, rank) # items) =
     (case getitem r2s rank of
        Inl e \<Rightarrow> Inl e
      | Inr score \<Rightarrow>
          (case doctype_scores r2s items of
             Inl e \<Rightarrow> Inl e
           | Inr rest \<Rightarrow> Inr ((name, score) # rest)))"

definition compute_doctype_boost :: "config \<Rightarrow> record_dict \<Rightarrow> py_error + real" where
  "compute_doctype_boost cfg rec =
     (let doctype = (case bib_data rec of
                       None \<Rightarrow> ''''
                     | Some bd \<Rightarrow> lower (case bd_doctype bd of None \<Rightarrow> '''' | Some d \<Rightarrow> d))
      in (case DOCTYPE_RANKING cfg of
            None \<Rightarrow> Inr 0
          | Some doctype_rank \<Rightarrow>
              (if doctype_rank = [] then Inr 0
               else (case rank_to_score (unique_ranks doctype_rank) of
                       Inl e \<Rightarrow> Inl e
                     | Inr r2s \<Rightarrow>
                         (case doctype_scores r2s doctype_rank of
                            Inl e \<Rightarrow> Inl e
                          | Inr scores \<Rightarrow>
                              (case map_of (dict_comp scores) doctype of
                                 None \<Rightarrow> Inr 0
                               | Some v \<Rightarrow> Inr v))))))"

subsection \<open>\<^verbatim>\<open>compute_recency_boost\<close>\<close>

text \<open>
  Lines 147 to 149: a day \<^verbatim>\<open>00\<close> is replaced in \<^verbatim>\<open>pub_date\<close>, and only there.
\<close>

definition substitute_day00 :: "string option \<Rightarrow> string option" where
  "substitute_day00 pub_date =
     (if truthy pub_date \<and> endswith (the pub_date) ''-00''
      then Some (take (length (the pub_date) - 2) (the pub_date) @ ''01'')
      else pub_date)"

text \<open>
  Lines 152 to 170: \<open>None\<close> is each path that returns the neutral \<^verbatim>\<open>1.0\<close>. When
  both strings are present, one \<^verbatim>\<open>try\<close> block parses both of them.
\<close>

definition pick_reference :: "string option \<Rightarrow> string option \<Rightarrow> datetime option" where
  "pick_reference pub_date entry_date =
     (if truthy pub_date \<and> truthy entry_date then
        (case strptime (the pub_date) of
           None \<Rightarrow> None
         | Some pub_datetime \<Rightarrow>
             (case strptime (the entry_date) of
                None \<Rightarrow> None
              | Some entry_datetime \<Rightarrow> Some (min_datetime pub_datetime entry_datetime)))
      else if truthy pub_date then strptime (the pub_date)
      else if truthy entry_date then strptime (the entry_date)
      else None)"

text \<open>Lines 135 to 170 as a whole: the reference date, if the code reaches line 172.\<close>

definition reference_date :: "record_dict \<Rightarrow> datetime option" where
  "reference_date rec =
     (let pub_date = (case bib_data rec of None \<Rightarrow> None | Some bd \<Rightarrow> bd_pubdate bd);
          entry_date = (case bib_data rec of None \<Rightarrow> None | Some bd \<Rightarrow> bd_entry_date bd)
      in if \<not> truthy pub_date \<and> \<not> truthy entry_date then None
         else pick_reference (substitute_day00 pub_date) entry_date)"

text \<open>\<^verbatim>\<open>age_months = (datetime.now() - reference_date).days / 30.44\<close>.\<close>

definition age_months :: "datetime \<Rightarrow> datetime \<Rightarrow> real" where
  "age_months now ref = real_of_int (timedelta_days now ref) / (3044 / 100)"

definition recency_multiplier :: "config \<Rightarrow> real" where
  "recency_multiplier cfg = (case RECENCY_BOOST_MULTIPLIER cfg of None \<Rightarrow> 1 / 10 | Some m \<Rightarrow> m)"

text \<open>The clock \<^verbatim>\<open>datetime.now()\<close> is the argument \<open>now\<close>.\<close>

definition compute_recency_boost :: "config \<Rightarrow> datetime \<Rightarrow> record_dict \<Rightarrow> py_error + real" where
  "compute_recency_boost cfg now rec =
     (case reference_date rec of
        None \<Rightarrow> Inr 1
      | Some ref \<Rightarrow>
          (if age_months now ref > 24 then Inr 1
           else if 1 + recency_multiplier cfg * age_months now ref = 0 then Inl ZeroDivisionError
           else Inr (1 / (1 + recency_multiplier cfg * age_months now ref))))"

subsection \<open>\<^verbatim>\<open>compute_collection_weights\<close>\<close>

definition normalize_tag :: "string \<Rightarrow> string" where
  "normalize_tag v = replace_space (lower v)"

definition truthy_sl :: "str_or_list option \<Rightarrow> bool" where
  "truthy_sl v = (case v of None \<Rightarrow> False | Some (Str s) \<Rightarrow> s \<noteq> [] | Some (StrList l) \<Rightarrow> l \<noteq> [])"

text \<open>
  Lines 195 to 205: \<^verbatim>\<open>classifications\<close> is taken when the key is present and its value
  is truthy; otherwise \<^verbatim>\<open>bib_data.database\<close> when that is truthy.
\<close>

definition raw_values :: "record_dict \<Rightarrow> str_or_list option" where
  "raw_values rec =
     (if truthy_sl (classifications rec) then
        (case the (classifications rec) of Str s \<Rightarrow> Some (StrList [s]) | StrList l \<Rightarrow> Some (StrList l))
      else if (case bib_data rec of None \<Rightarrow> False | Some bd \<Rightarrow> truthy_sl (bd_database bd)) then
        bd_database (the (bib_data rec))
      else None)"

text \<open>Lines 207 to 213: normalised tags, with the default \<^verbatim>\<open>['general']\<close>.\<close>

definition record_collections :: "record_dict \<Rightarrow> string list" where
  "record_collections rec =
     (let cs = (case raw_values rec of
                  Some (StrList l) \<Rightarrow> map normalize_tag (filter (\<lambda>v. v \<noteq> []) l)
                | Some (Str s) \<Rightarrow> (if s \<noteq> [] then [normalize_tag s] else [])
                | None \<Rightarrow> [])
      in if cs = [] then [''general''] else cs)"

definition default_collections :: "string list" where
  "default_collections =
     [''astronomy'', ''physics'', ''earth_science'', ''planetary_science'', ''heliophysics'',
      ''general'']"

definition collections :: "config \<Rightarrow> string list" where
  "collections cfg = (case COLLECTIONS cfg of None \<Rightarrow> default_collections | Some cs \<Rightarrow> cs)"

text \<open>Lines 226 to 230: every rank of every table that is not \<^verbatim>\<open>None\<close>.\<close>

definition all_ranks :: "(string, (string, int option) dict) dict \<Rightarrow> int list" where
  "all_ranks collection_rankings =
     concat (map (\<lambda>(tag, rankings). concat (map (\<lambda>(d, rank). case rank of None \<Rightarrow> [] | Some r \<Rightarrow> [r])
                                                  rankings))
                 collection_rankings)"

text \<open>Lines 238 to 248.\<close>

definition rank_to_weight :: "int list \<Rightarrow> (int, real) dict" where
  "rank_to_weight sorted_ranks =
     dict_comp (map (\<lambda>(i, rank).
                  (rank, if length sorted_ranks = 1 then 1
                         else 1 - (9 / 10) * real i / real_of_int (int (length sorted_ranks) - 1)))
                (enumerate 0 sorted_ranks))"

text \<open>Lines 261 to 267: the inner loop over the record's collections.\<close>

definition max_weight :: "(string, (string, int option) dict) dict \<Rightarrow> (int, real) dict \<Rightarrow>
    string list \<Rightarrow> string \<Rightarrow> real" where
  "max_weight collection_rankings r2w rcs discipline =
     fold (\<lambda>record_collection mw.
             let collection_table = (case map_of collection_rankings record_collection of
                                       None \<Rightarrow> [] | Some t \<Rightarrow> t)
             in (case map_of collection_table discipline of
                   Some (Some rank) \<Rightarrow>
                     max mw (case map_of r2w rank of None \<Rightarrow> 0 | Some w \<Rightarrow> w)
                 | _ \<Rightarrow> mw))
          rcs 0"

definition weight_key :: "string \<Rightarrow> string" where
  "weight_key collection = collection @ ''_weight''"

definition final_boost_key :: "string \<Rightarrow> string" where
  "final_boost_key collection = collection @ ''_final_boost''"

definition compute_collection_weights :: "config \<Rightarrow> record_dict \<Rightarrow> (string, real) dict" where
  "compute_collection_weights cfg rec =
     (let rcs = record_collections rec;
          collection_rankings = (case COLLECTION_RANKINGS cfg of None \<Rightarrow> [] | Some cr \<Rightarrow> cr)
      in if collection_rankings = [] then
           dict_comp (map (\<lambda>c. (weight_key c, 1)) (collections cfg))
         else
           let ranks = remdups (all_ranks collection_rankings)
           in if ranks = [] then
                dict_comp (map (\<lambda>c. (weight_key c, 1)) (collections cfg))
              else
                let sorted_ranks = rev (sort ranks);
                    r2w = rank_to_weight sorted_ranks
                in if ''general'' \<in> set rcs then
                     dict_comp (map (\<lambda>d. (weight_key d, 1)) (collections cfg))
                   else
                     dict_comp (map (\<lambda>d. (weight_key d, max_weight collection_rankings r2w rcs d))
                                    (collections cfg)))"

subsection \<open>\<^verbatim>\<open>compute_final_boost\<close> and \<^verbatim>\<open>compute_boost_factors\<close>\<close>

text \<open>
  \<^verbatim>\<open>{k: v/total_weight for k, v in weights.items()}\<close>: the division is evaluated for
  each item, so it raises when the total is 0 and the dict is not empty.
\<close>

definition normalized_weights :: "(string, real) dict \<Rightarrow> py_error + (string, real) dict" where
  "normalized_weights weights =
     (let total_weight = sum_list (map snd weights)
      in if weights \<noteq> [] \<and> total_weight = 0 then Inl ZeroDivisionError
         else Inr (dict_comp (map (\<lambda>(k, v). (k, v / total_weight)) weights)))"

text \<open>The weighted sum of lines 297 to 301 and 352 to 356.\<close>

definition weighted_sum :: "(string, real) dict \<Rightarrow> (string, real) dict \<Rightarrow> py_error + real" where
  "weighted_sum boost_factors nw =
     (case (getitem boost_factors ''refereed_boost'', getitem nw ''refereed_boost'',
            getitem boost_factors ''doctype_boost'', getitem nw ''doctype_boost'',
            getitem boost_factors ''recency_boost'', getitem nw ''recency_boost'') of
        (Inr br, Inr wr, Inr bd, Inr wd, Inr bc, Inr wc) \<Rightarrow> Inr (br * wr + bd * wd + bc * wc)
      | _ \<Rightarrow> Inl KeyError)"

definition default_weights :: "(string, real) dict" where
  "default_weights = [(''refereed_boost'', 6 / 10), (''doctype_boost'', 4 / 10), (''recency_boost'', 0)]"

fun final_boosts :: "(string, real) dict \<Rightarrow> real \<Rightarrow> string list \<Rightarrow> py_error + (string \<times> real) list" where
  "final_boosts cw bf [] = Inr []"
| "final_boosts cw bf (c # cs) =
     (case getitem cw (weight_key c) of
        Inl e \<Rightarrow> Inl e
      | Inr w \<Rightarrow>
          (case final_boosts cw bf cs of
             Inl e \<Rightarrow> Inl e
           | Inr rest \<Rightarrow> Inr ((final_boost_key c, w * bf) # rest)))"

definition compute_final_boost ::
    "config \<Rightarrow> (string, real) dict \<Rightarrow> record_dict \<Rightarrow> py_error + (string, real) dict" where
  "compute_final_boost cfg boost_factors rec =
     (let weights = (case BOOST_FACTOR_WEIGHTS cfg of None \<Rightarrow> [] | Some w \<Rightarrow> w);
          weights = (if weights = [] then default_weights else weights);
          total_weight = sum_list (map snd weights);
          boost_factor =
            (if total_weight > 0 then
               (case normalized_weights weights of
                  Inl e \<Rightarrow> Inl e
                | Inr nw \<Rightarrow> weighted_sum boost_factors nw)
             else if boost_factors = [] then Inl ZeroDivisionError
             else Inr (sum_list (map snd boost_factors) / real (length boost_factors)))
      in (case boost_factor of
            Inl e \<Rightarrow> Inl e
          | Inr bf \<Rightarrow>
              (case final_boosts (compute_collection_weights cfg rec) bf (collections cfg) of
                 Inl e \<Rightarrow> Inl e
               | Inr fb \<Rightarrow> Inr (dict_comp fb))))"

text \<open>
  The scoring call. The three boosts are computed first, in the order of the dict
  literal; the weights of lines 346 to 356 are read with the default \<^verbatim>\<open>{}\<close>.
\<close>

definition compute_boost_factors ::
    "config \<Rightarrow> datetime \<Rightarrow> record_dict \<Rightarrow> py_error + (string, real) dict" where
  "compute_boost_factors cfg now rec =
     (case compute_doctype_boost cfg rec of
        Inl e \<Rightarrow> Inl e
      | Inr doctype_boost \<Rightarrow>
     (case compute_recency_boost cfg now rec of
        Inl e \<Rightarrow> Inl e
      | Inr recency_boost \<Rightarrow>
     (let boost_factors = [(''refereed_boost'', compute_refereed_boost rec),
                           (''doctype_boost'', doctype_boost),
                           (''recency_boost'', recency_boost)];
          weights = (case BOOST_FACTOR_WEIGHTS cfg of None \<Rightarrow> [] | Some w \<Rightarrow> w)
      in (case normalized_weights weights of
            Inl e \<Rightarrow> Inl e
          | Inr nw \<Rightarrow>
         (case weighted_sum boost_factors nw of
            Inl e \<Rightarrow> Inl e
          | Inr boost_factor \<Rightarrow>
         (let boost_factors = setitem boost_factors ''boost_factor'' boost_factor;
              boost_factors = dict_update boost_factors (compute_collection_weights cfg rec)
          in (case compute_final_boost cfg boost_factors rec of
                Inl e \<Rightarrow> Inl e
              | Inr fb \<Rightarrow> Inr (dict_update boost_factors fb))))))))"

subsection \<open>\<^verbatim>\<open>process_boost_request\<close>\<close>

text \<open>
  The storage and messaging calls that follow the scoring are collaborators outside the
  engine; the model records what is handed to them. \<open>NotScored\<close> is the early
  \<^verbatim>\<open>return\<close> after \<^verbatim>\<open>logger.error("No bibcode provided in request")\<close>: the call
  returns \<^verbatim>\<open>None\<close> and raises nothing. \<open>Inl\<close> is an exception that leaves the call.
\<close>

datatype outcome = NotScored | Scored string "string option" "(string, real) dict"

definition resolve_bibcode :: "record_dict \<Rightarrow> string option" where
  "resolve_bibcode request =
     (if \<not> truthy (bibcode request) \<and> bib_data request \<noteq> None
      then (case bd_bibcode (the (bib_data request)) of None \<Rightarrow> Some '''' | Some b \<Rightarrow> Some b)
      else bibcode request)"

definition resolve_scix_id :: "record_dict \<Rightarrow> string option" where
  "resolve_scix_id request =
     (if \<not> truthy (scix_id request) \<and> bib_data request \<noteq> None
      then (case bd_scix_id (the (bib_data request)) of None \<Rightarrow> Some '''' | Some b \<Rightarrow> Some b)
      else scix_id request)"

definition process_boost_request :: "config \<Rightarrow> datetime \<Rightarrow> record_dict \<Rightarrow> py_error + outcome" where
  "process_boost_request cfg now request =
     (if \<not> truthy (resolve_bibcode request) then Inr NotScored
      else (case compute_boost_factors cfg now request of
              Inl e \<Rightarrow> Inl e
            | Inr boost_factors \<Rightarrow>
                Inr (Scored (the (resolve_bibcode request)) (resolve_scix_id request) boost_factors)))"

section \<open>Example inputs\<close>

text \<open>The configuration and record of the end-to-end example, and a clock.\<close>

definition example_config :: config where
  "example_config =
     \<lparr>DOCTYPE_RANKING = Some [(''article'', 1), (''abstract'', 2)],
      COLLECTION_RANKINGS =
        Some [(''astronomy'', [(''astronomy'', Some 2), (''physics'', Some 1)])],
      COLLECTIONS = None,
      BOOST_FACTOR_WEIGHTS =
        Some [(''refereed_boost'', 6 / 10), (''doctype_boost'', 4 / 10), (''recency_boost'', 0)],
      RECENCY_BOOST_MULTIPLIER = None\<rparr>"

definition example_bib_data :: bib_data_dict where
  "example_bib_data =
     \<lparr>bd_bibcode = None, bd_scix_id = None, bd_doctype = Some ''article'',
      bd_pubdate = Some ''2024-01-01'', bd_entry_date = None,
      bd_database = Some (Str ''astronomy''), bd_refereed = None\<rparr>"

definition example_record :: record_dict where
  "example_record =
     \<lparr>bibcode = None, scix_id = None, bib_data = Some example_bib_data,
      metrics = Some \<lparr>m_refereed = Some True\<rparr>, classifications = None\<rparr>"

text \<open>1 June 2024, 12:30:00.000005.\<close>

definition example_now :: datetime where
  "example_now =
     \<lparr>year = 2024, month = 6, day = 1, hour = 12, minute = 30, second = 0, microsecond = 5\<rparr>"

text \<open>The same day in the evening, and one month later.\<close>

definition example_evening :: datetime where
  "example_evening =
     \<lparr>year = 2024, month = 6, day = 1, hour = 23, minute = 59, second = 59, microsecond = 0\<rparr>"

definition example_later :: datetime where
  "example_later =
     \<lparr>year = 2024, month = 7, day = 1, hour = 0, minute = 0, second = 0, microsecond = 0\<rparr>"

text \<open>Identity: no bibcode but a SciX id; and a top-level bibcode.\<close>

definition scix_only_record :: record_dict where
  "scix_only_record = example_record\<lparr>scix_id := Some ''scix:0000-0000-0001''\<rparr>"

definition bibcode_record :: record_dict where
  "bibcode_record = example_record\<lparr>bibcode := Some ''2024ApJ...960....1A''\<rparr>"

text \<open>Configurations without weights, with weights that are all 0, and with one rank.\<close>

definition config_without_weights :: config where
  "config_without_weights = example_config\<lparr>BOOST_FACTOR_WEIGHTS := None\<rparr>"

definition config_zero_weights :: config where
  "config_zero_weights =
     example_config\<lparr>BOOST_FACTOR_WEIGHTS :=
       Some [(''refereed_boost'', 0), (''doctype_boost'', 0), (''recency_boost'', 0)]\<rparr>"

definition config_single_rank :: config where
  "config_single_rank = example_config\<lparr>DOCTYPE_RANKING := Some [(''article'', 1)]\<rparr>"

text \<open>Records that differ in their dates only.\<close>

definition dated_record :: "string option \<Rightarrow> string option \<Rightarrow> record_dict" where
  "dated_record pub_date entry_date =
     example_record\<lparr>bib_data :=
       Some (example_bib_data\<lparr>bd_pubdate := pub_date, bd_entry_date := entry_date\<rparr>)\<rparr>"

text \<open>Records that differ in their collection tags only.\<close>

definition tagged_record :: "str_or_list option \<Rightarrow> str_or_list option \<Rightarrow> record_dict" where
  "tagged_record cls database =
     example_record\<lparr>classifications := cls,
       bib_data := Some (example_bib_data\<lparr>bd_database := database\<rparr>)\<rparr>"


section \<open>Dictionaries\<close>

lemma map_of_setitem: "map_of (setitem d k v) = (map_of d)(k \<mapsto> v)"
  by (induction d k v rule: setitem.induct) auto

lemma map_of_dict_update:
  "map_of (dict_update d e) k = (case map_of (rev e) k of None \<Rightarrow> map_of d k | Some v \<Rightarrow> Some v)"
  unfolding dict_update_def
proof (induction e arbitrary: d)
  case Nil
  show ?case by simp
next
  case (Cons kv e)
  obtain k' v' where kv: "kv = (k', v')" by (cases kv)
  show ?case
    by (simp add: kv Cons.IH map_of_setitem map_add_def split: option.splits)
qed

lemma map_of_dict_comp_const:
  assumes "c \<in> set cs"
  shows "map_of (dict_comp (map (\<lambda>c. (f c, a)) cs)) (f c) = Some a"
proof -
  let ?kvs = "rev (map (\<lambda>c. (f c, a)) cs)"
  have "f c \<in> fst ` set ?kvs" using assms by force
  then obtain v where v: "map_of ?kvs (f c) = Some v"
    by (meson domD domI map_of_eq_None_iff not_Some_eq)
  then have "(f c, v) \<in> set ?kvs" by (rule map_of_SomeD)
  then have "v = a" by auto
  with v show ?thesis by (simp add: dict_comp_def map_of_dict_update)
qed


lemma map_of_rev_distinct:
  assumes "distinct (map fst kvs)"
  shows "map_of (rev kvs) = map_of kvs"
proof -
  have "distinct (map fst (rev kvs))"
    using assms by (simp add: rev_map [symmetric])
  from map_of_inject_set [OF this assms] show ?thesis by simp
qed

lemma map_of_dict_comp_distinct:
  "distinct (map fst kvs) \<Longrightarrow> map_of (dict_comp kvs) = map_of kvs"
  by (rule ext) (simp add: dict_comp_def map_of_dict_update map_of_rev_distinct split: option.splits)


section \<open>The end-to-end example\<close>

text \<open>
  A refereed astronomy article of 1 January 2024 scored on 1 June 2024: the values of the
  end-to-end example, with the recency boost of an age of 152 days.
\<close>

lemma end_to_end_example:
  "compute_boost_factors example_config example_now example_record =
     Inr [(''refereed_boost'', 1), (''doctype_boost'', 1), (''recency_boost'', 761 / 1141),
          (''boost_factor'', 1),
          (''astronomy_weight'', 1), (''physics_weight'', 1 / 10),
          (''earth_science_weight'', 0), (''planetary_science_weight'', 0),
          (''heliophysics_weight'', 0), (''general_weight'', 0),
          (''astronomy_final_boost'', 1), (''physics_final_boost'', 1 / 10),
          (''earth_science_final_boost'', 0), (''planetary_science_final_boost'', 0),
          (''heliophysics_final_boost'', 0), (''general_final_boost'', 0)]"
  by code_simp

section \<open>Identity of a request\<close>

lemma resolve_bibcode_falsy:
  "\<not> truthy (resolve_bibcode request) \<longleftrightarrow>
     \<not> truthy (bibcode request) \<and>
     (case bib_data request of None \<Rightarrow> True | Some bd \<Rightarrow> \<not> truthy (bd_bibcode bd))"
  by (auto simp: resolve_bibcode_def truthy_def split: option.splits)

lemma resolve_bibcode_ignores_scix_id:
  "resolve_bibcode (request\<lparr>scix_id := s\<rparr>) = resolve_bibcode request"
  by (simp add: resolve_bibcode_def)

text \<open>
  Claim C1, as the code has it. A request is scored exactly when its bibcode resolves (the
  top-level \<^verbatim>\<open>bibcode\<close>, else \<^verbatim>\<open>bib_data.bibcode\<close>), whatever its
  \<^verbatim>\<open>scix_id\<close>. When the bibcode does not resolve, \<^verbatim>\<open>process_boost_request\<close> logs
  an error and returns normally without scoring: nothing is raised. When it resolves, the
  boost factors are computed and handed on, and an exception of the scoring leaves the
  call.
\<close>

theorem process_boost_request_needs_bibcode:
  "(\<not> truthy (resolve_bibcode request) \<longrightarrow>
      process_boost_request cfg now request = Inr NotScored) \<and>
   (truthy (resolve_bibcode request) \<longrightarrow>
      process_boost_request cfg now request =
        (case compute_boost_factors cfg now request of
           Inl e \<Rightarrow> Inl e
         | Inr bf \<Rightarrow> Inr (Scored (the (resolve_bibcode request)) (resolve_scix_id request) bf)))"
  by (simp add: process_boost_request_def)

text \<open>
  The theorem at a request with a SciX id and no bibcode, and at one with a bibcode.
\<close>

theorem process_boost_request_needs_bibcode_witness:
  "\<not> truthy (resolve_bibcode scix_only_record) \<and>
   process_boost_request example_config example_now scix_only_record = Inr NotScored \<and>
   truthy (resolve_bibcode bibcode_record) \<and>
   process_boost_request example_config example_now bibcode_record =
     Inr (Scored ''2024ApJ...960....1A'' (Some '''')
           [(''refereed_boost'', 1), (''doctype_boost'', 1), (''recency_boost'', 761 / 1141),
            (''boost_factor'', 1),
            (''astronomy_weight'', 1), (''physics_weight'', 1 / 10),
            (''earth_science_weight'', 0), (''planetary_science_weight'', 0),
            (''heliophysics_weight'', 0), (''general_weight'', 0),
            (''astronomy_final_boost'', 1), (''physics_final_boost'', 1 / 10),
            (''earth_science_final_boost'', 0), (''planetary_science_final_boost'', 0),
            (''heliophysics_final_boost'', 0), (''general_final_boost'', 0)])"
proof -
  have h1: "\<not> truthy (resolve_bibcode scix_only_record)" by code_simp
  have h2: "truthy (resolve_bibcode bibcode_record)" by code_simp
  have b: "the (resolve_bibcode bibcode_record) = ''2024ApJ...960....1A''" by code_simp
  have x: "resolve_scix_id bibcode_record = Some ''''" by code_simp
  have v: "compute_boost_factors example_config example_now bibcode_record =
           Inr [(''refereed_boost'', 1), (''doctype_boost'', 1), (''recency_boost'', 761 / 1141),
                (''boost_factor'', 1),
                (''astronomy_weight'', 1), (''physics_weight'', 1 / 10),
                (''earth_science_weight'', 0), (''planetary_science_weight'', 0),
                (''heliophysics_weight'', 0), (''general_weight'', 0),
                (''astronomy_final_boost'', 1), (''physics_final_boost'', 1 / 10),
                (''earth_science_final_boost'', 0), (''planetary_science_final_boost'', 0),
                (''heliophysics_final_boost'', 0), (''general_final_boost'', 0)]"
    by code_simp
  have c1: "process_boost_request example_config example_now scix_only_record = Inr NotScored"
    using process_boost_request_needs_bibcode [of scix_only_record example_config example_now] h1
    by blast
  have c2: "process_boost_request example_config example_now bibcode_record =
            (case compute_boost_factors example_config example_now bibcode_record of
               Inl e \<Rightarrow> Inl e
             | Inr bf \<Rightarrow> Inr (Scored (the (resolve_bibcode bibcode_record))
                                 (resolve_scix_id bibcode_record) bf))"
    using process_boost_request_needs_bibcode [of bibcode_record example_config example_now] h2
    by blast
  show ?thesis
    using h1 h2 c1 c2 by (simp add: v b x)
qed

text \<open>
  Against claim C1 as stated: a request whose SciX id resolves and whose bibcode does not
  could be scored (the scoring call returns a value), but it is not, and the call returns
  normally; the same holds for a request with neither identifier.
\<close>

theorem scix_only_request_counterexample:
  "truthy (resolve_scix_id scix_only_record) \<and>
   \<not> truthy (resolve_bibcode scix_only_record) \<and>
   isl (compute_boost_factors example_config example_now scix_only_record) = False \<and>
   process_boost_request example_config example_now scix_only_record = Inr NotScored \<and>
   \<not> truthy (resolve_scix_id example_record) \<and>
   \<not> truthy (resolve_bibcode example_record) \<and>
   process_boost_request example_config example_now example_record = Inr NotScored"
  by code_simp


section \<open>Collection weights\<close>

lemma normalize_tag_General: "normalize_tag ''General'' = ''general''"
  by (simp add: normalize_tag_def lower_def lower_char_def replace_space_def)

lemma record_collections_default:
  "raw_values rec = None \<Longrightarrow> record_collections rec = [''general'']"
  by (simp add: record_collections_def)

lemma record_collections_classifications_list:
  "classifications rec = Some (StrList l) \<Longrightarrow> v \<in> set l \<Longrightarrow> v \<noteq> [] \<Longrightarrow>
   normalize_tag v \<in> set (record_collections rec)"
  by (auto simp: record_collections_def raw_values_def truthy_sl_def Let_def filter_empty_conv)

lemma record_collections_classifications_str:
  "classifications rec = Some (Str v) \<Longrightarrow> v \<noteq> [] \<Longrightarrow>
   record_collections rec = [normalize_tag v]"
  by (simp add: record_collections_def raw_values_def truthy_sl_def)

lemma compute_collection_weights_general_eq:
  "''general'' \<in> set (record_collections rec) \<Longrightarrow>
   compute_collection_weights cfg rec = dict_comp (map (\<lambda>c. (weight_key c, 1)) (collections cfg))"
  by (simp add: compute_collection_weights_def Let_def)

text \<open>
  Claim C5. When the resolved collection tags of a record include \<^verbatim>\<open>general\<close> (a tag
  of \<^verbatim>\<open>classifications\<close> or \<^verbatim>\<open>bib_data.database\<close> that normalises to it, or the
  default when no tag resolves), \<^verbatim>\<open>compute_collection_weights\<close> gives weight 1.0 to
  every tracked discipline, whatever \<^verbatim>\<open>COLLECTION_RANKINGS\<close> holds.
\<close>

theorem general_collection_weights:
  assumes "''general'' \<in> set (record_collections rec)"
  shows "\<forall>d \<in> set (collections cfg).
           map_of (compute_collection_weights cfg rec) (weight_key d) = Some 1"
  using assms by (simp add: compute_collection_weights_general_eq map_of_dict_comp_const)

text \<open>
  The theorem at a record classified \<^verbatim>\<open>["Astronomy", "General"]\<close>, where the ranking
  table alone would give physics the weight 0.1.
\<close>

theorem general_collection_weights_witness:
  "''general'' \<in> set (record_collections (tagged_record (Some (StrList [''Astronomy'', ''General''])) None)) \<and>
   ''physics'' \<in> set (collections example_config) \<and>
   map_of (compute_collection_weights example_config
             (tagged_record (Some (StrList [''Astronomy'', ''General''])) None))
          (weight_key ''physics'') = Some 1"
proof -
  have h: "''general'' \<in> set (record_collections (tagged_record (Some (StrList [''Astronomy'', ''General''])) None))"
    by code_simp
  have d: "''physics'' \<in> set (collections example_config)"
    by code_simp
  show ?thesis
    using h d general_collection_weights [OF h, of example_config] by blast
qed

text \<open>
  Claim C9, as the code has it. When \<^verbatim>\<open>classifications\<close> is present and not empty (a
  non-empty string or a non-empty list), the collection tags come from it (a string as a
  one-element list, a list as it is) and \<^verbatim>\<open>bib_data\<close>, with its \<^verbatim>\<open>database\<close>,
  changes neither the tags nor the weights. \<^verbatim>\<open>bib_data.database\<close> is consulted when
  \<^verbatim>\<open>classifications\<close> is absent or empty.
\<close>

theorem classifications_precedence:
  assumes "truthy_sl (classifications rec)"
  shows "raw_values rec =
           Some (StrList (case the (classifications rec) of Str s \<Rightarrow> [s] | StrList l \<Rightarrow> l)) \<and>
         record_collections (rec\<lparr>bib_data := b\<rparr>) = record_collections rec \<and>
         compute_collection_weights cfg (rec\<lparr>bib_data := b\<rparr>) = compute_collection_weights cfg rec"
proof -
  have rv: "raw_values (rec\<lparr>bib_data := b\<rparr>) = raw_values rec"
    using assms by (simp add: raw_values_def)
  have rc: "record_collections (rec\<lparr>bib_data := b\<rparr>) = record_collections rec"
    by (simp add: record_collections_def rv)
  have "raw_values rec =
          Some (StrList (case the (classifications rec) of Str s \<Rightarrow> [s] | StrList l \<Rightarrow> l))"
    using assms by (simp add: raw_values_def split: str_or_list.splits)
  moreover have "compute_collection_weights cfg (rec\<lparr>bib_data := b\<rparr>) =
                 compute_collection_weights cfg rec"
    by (simp add: compute_collection_weights_def rc)
  ultimately show ?thesis using rc by simp
qed

text \<open>
  The theorem at a record classified \<^verbatim>\<open>"Physics"\<close> whose database says astronomy:
  removing \<^verbatim>\<open>bib_data\<close> changes nothing.
\<close>

theorem classifications_precedence_witness:
  "truthy_sl (classifications (tagged_record (Some (Str ''Physics'')) (Some (Str ''astronomy'')))) \<and>
   record_collections (tagged_record (Some (Str ''Physics'')) (Some (Str ''astronomy''))) = [''physics''] \<and>
   compute_collection_weights example_config
     ((tagged_record (Some (Str ''Physics'')) (Some (Str ''astronomy'')))\<lparr>bib_data := None\<rparr>) =
   compute_collection_weights example_config
     (tagged_record (Some (Str ''Physics'')) (Some (Str ''astronomy'')))"
proof -
  have h: "truthy_sl (classifications (tagged_record (Some (Str ''Physics'')) (Some (Str ''astronomy''))))"
    by code_simp
  have t: "record_collections (tagged_record (Some (Str ''Physics'')) (Some (Str ''astronomy''))) = [''physics'']"
    by code_simp
  show ?thesis
    using h t classifications_precedence [OF h, of None example_config] by simp
qed

text \<open>
  Against claim C9 as stated: \<^verbatim>\<open>classifications\<close> is present and is the empty list,
  and the tags and weights come from \<^verbatim>\<open>bib_data.database\<close>; without the database
  the same record gets the default tag.
\<close>

theorem empty_classifications_counterexample:
  "classifications (tagged_record (Some (StrList [])) (Some (Str ''astronomy''))) = Some (StrList []) \<and>
   record_collections (tagged_record (Some (StrList [])) (Some (Str ''astronomy''))) = [''astronomy''] \<and>
   record_collections (tagged_record (Some (StrList [])) None) = [''general''] \<and>
   map_of (compute_collection_weights example_config
             (tagged_record (Some (StrList [])) (Some (Str ''astronomy''))))
          ''physics_weight'' = Some (1 / 10) \<and>
   map_of (compute_collection_weights example_config (tagged_record (Some (StrList [])) None))
          ''physics_weight'' = Some 1"
  by code_simp


section \<open>Recency\<close>



lemma substitute_day00_00: "substitute_day00 (Some (p @ ''-00'')) = Some (p @ ''-01'')"
  by (simp add: substitute_day00_def truthy_def endswith_def)

lemma substitute_day00_01: "substitute_day00 (Some (p @ ''-01'')) = Some (p @ ''-01'')"
  by (simp add: substitute_day00_def truthy_def endswith_def)







text \<open>
  Claim C7, as the code has it. A \<^verbatim>\<open>pubdate\<close> that ends in \<^verbatim>\<open>-00\<close> is treated as
  the same string with \<^verbatim>\<open>-01\<close>: the replacement is made before parsing and the
  recency boost is that of the day-01 string. The replacement is made for \<^verbatim>\<open>pubdate\<close>
  only.
\<close>

theorem pubdate_day00_as_day01:
  assumes "bib_data rec = Some bd" and "bd_pubdate bd = Some (p @ ''-00'')"
  shows "compute_recency_boost cfg now rec =
         compute_recency_boost cfg now
           (rec\<lparr>bib_data := Some (bd\<lparr>bd_pubdate := Some (p @ ''-01'')\<rparr>)\<rparr>)"
proof -
  have "reference_date rec =
        reference_date (rec\<lparr>bib_data := Some (bd\<lparr>bd_pubdate := Some (p @ ''-01'')\<rparr>)\<rparr>)"
    using assms
    by (simp add: reference_date_def substitute_day00_00 substitute_day00_01 truthy_def)
  then show ?thesis by (simp add: compute_recency_boost_def)
qed

text \<open>The theorem at \<^verbatim>\<open>pubdate = "2024-03-00"\<close>.\<close>

theorem pubdate_day00_as_day01_witness:
  "bib_data (dated_record (Some (''2024-03'' @ ''-00'')) None) =
     Some (example_bib_data\<lparr>bd_pubdate := Some (''2024-03'' @ ''-00''), bd_entry_date := None\<rparr>) \<and>
   compute_recency_boost example_config example_now (dated_record (Some (''2024-03'' @ ''-00'')) None) =
   compute_recency_boost example_config example_now
     ((dated_record (Some (''2024-03'' @ ''-00'')) None)
        \<lparr>bib_data := Some (example_bib_data\<lparr>bd_pubdate := Some (''2024-03'' @ ''-00''),
                                               bd_entry_date := None\<rparr>
                              \<lparr>bd_pubdate := Some (''2024-03'' @ ''-01'')\<rparr>)\<rparr>)"
proof -
  let ?bd = "example_bib_data\<lparr>bd_pubdate := Some (''2024-03'' @ ''-00''), bd_entry_date := None\<rparr>"
  have b: "bib_data (dated_record (Some (''2024-03'' @ ''-00'')) None) = Some ?bd"
    unfolding dated_record_def by simp
  have p: "bd_pubdate ?bd = Some (''2024-03'' @ ''-00'')"
    by simp
  from pubdate_day00_as_day01 [OF b p, of example_config example_now] b
  show ?thesis by blast
qed

text \<open>
  Against claim C7 as stated: an \<^verbatim>\<open>entry_date\<close> that ends in \<^verbatim>\<open>-00\<close> is not
  replaced; it fails to parse and the result is the neutral 1.0, not the boost of the
  day-01 string.
\<close>

theorem entry_date_day00_counterexample:
  "compute_recency_boost example_config example_now (dated_record None (Some ''2024-03-00'')) = Inr 1 \<and>
   compute_recency_boost example_config example_now (dated_record None (Some ''2024-03-01'')) =
     Inr (761 / 991) \<and>
   compute_recency_boost example_config example_now (dated_record (Some ''2024-03-00'') None) =
     Inr (761 / 991)"
  by code_simp


section \<open>Dependence on the clock\<close>

lemma strptime_midnight: "strptime s = Some d \<Longrightarrow> midnight d"
  by (auto simp: strptime_def midnight_def Let_def split: if_splits list.splits option.splits)

lemma min_datetime_midnight: "midnight a \<Longrightarrow> midnight b \<Longrightarrow> midnight (min_datetime a b)"
  by (simp add: min_datetime_def)

lemma pick_reference_midnight: "pick_reference p e = Some ref \<Longrightarrow> midnight ref"
  by (auto simp: pick_reference_def intro: min_datetime_midnight strptime_midnight
           split: if_splits option.splits)

lemma reference_date_midnight: "reference_date rec = Some ref \<Longrightarrow> midnight ref"
  by (auto simp: reference_date_def Let_def dest: pick_reference_midnight split: if_splits)

text \<open>Against a date at midnight, the days of the difference are the difference of ordinals.\<close>

lemma timedelta_days_midnight:
  assumes "valid_time a" and "midnight b"
  shows "timedelta_days a b = toordinal a - toordinal b"
proof -
  define r where "r = seconds_of_day a * 1000000 + microsecond a"
  define d where "d = toordinal a - toordinal b"
  have r: "0 \<le> r" "r < 86400000000"
    using assms(1) unfolding r_def valid_time_def seconds_of_day_def by simp_all
  have "timedelta_days a b = (d * 86400000000 + r) div 86400000000"
    using assms(2) by (simp add: timedelta_days_def midnight_def seconds_of_day_def r_def d_def)
  also have "\<dots> = d + r div 86400000000"
    by simp
  also have "\<dots> = d"
    using r by (simp add: div_pos_pos_trivial)
  finally show ?thesis by (simp add: d_def)
qed

lemma same_date_toordinal: "same_date a b \<Longrightarrow> toordinal a = toordinal b"
  by (simp add: same_date_def toordinal_def)

lemma recency_same_date:
  assumes "valid_time t1" "valid_time t2" "same_date t1 t2"
  shows "compute_recency_boost cfg t1 rec = compute_recency_boost cfg t2 rec"
proof (cases "reference_date rec")
  case None
  then show ?thesis by (simp add: compute_recency_boost_def)
next
  case (Some ref)
  then have "midnight ref" by (rule reference_date_midnight)
  then have "timedelta_days t1 ref = timedelta_days t2 ref"
    using assms by (simp add: timedelta_days_midnight same_date_toordinal)
  then show ?thesis using Some by (simp add: compute_recency_boost_def age_months_def)
qed

text \<open>
  Claim C10, as the code has it. The scoring call is a function of the record, the
  configuration and the calendar date of the clock: two invocations on the same record
  and configuration whose clocks show the same date, at any times of day, return the same
  result, value or exception.
\<close>

theorem boost_factors_same_date:
  assumes "valid_time t1" and "valid_time t2" and "same_date t1 t2"
  shows "compute_boost_factors cfg t1 rec = compute_boost_factors cfg t2 rec"
  unfolding compute_boost_factors_def recency_same_date [OF assms] ..

text \<open>The theorem at noon and in the evening of the same day.\<close>

theorem boost_factors_same_date_witness:
  "valid_time example_now \<and> valid_time example_evening \<and> same_date example_now example_evening \<and>
   compute_boost_factors example_config example_now example_record =
   compute_boost_factors example_config example_evening example_record"
proof -
  have v1: "valid_time example_now" by code_simp
  have v2: "valid_time example_evening" by code_simp
  have sd: "same_date example_now example_evening" by code_simp
  from boost_factors_same_date [OF v1 v2 sd, of example_config example_record] v1 v2 sd
  show ?thesis by blast
qed

text \<open>
  Against claim C10 as stated: the same record and configuration scored on 1 June 2024
  and on 1 July 2024 get different recency boosts.
\<close>

theorem clock_dependence_counterexample:
  "compute_recency_boost example_config example_now example_record = Inr (761 / 1141) \<and>
   compute_recency_boost example_config example_later example_record = Inr (761 / 1216) \<and>
   compute_boost_factors example_config example_now example_record \<noteq>
   compute_boost_factors example_config example_later example_record"
  by code_simp

section \<open>Doctype ranks\<close>

lemma unique_ranks_distinct: "distinct (unique_ranks dr)"
  by (simp add: unique_ranks_def)

lemma set_unique_ranks: "set (unique_ranks dr) = snd ` set dr"
  by (simp add: unique_ranks_def)

text \<open>With one distinct rank the divisor of the score table is 0, for every record.\<close>

lemma doctype_one_rank_error:
  assumes "DOCTYPE_RANKING cfg = Some dr" and "dr \<noteq> []" and "length (unique_ranks dr) = 1"
  shows "compute_doctype_boost cfg rec = Inl ZeroDivisionError"
  using assms by (auto simp: compute_doctype_boost_def rank_to_score_def Let_def)

lemma enumerate_scores_zip:
  "map (\<lambda>(i, rank). (rank, f i)) (enumerate 0 ur) = zip ur (map f [0..<length ur])"
  by (auto intro!: nth_equalityI simp: enumerate_eq_zip)

lemma rank_to_score_nth:
  assumes "distinct ur" and "2 \<le> length ur" and "i < length ur"
  shows "\<exists>r2s. rank_to_score ur = Inr r2s \<and>
               map_of r2s (ur ! i) = Some (1 - real i / real_of_int (int (length ur) - 1)) \<and>
               dom (map_of r2s) = set ur"
proof -
  define f where "f = (\<lambda>i::nat. 1 - real i / real_of_int (int (length ur) - 1))"
  define kvs where "kvs = zip ur (map f [0..<length ur])"
  have d: "distinct (map fst kvs)"
    using assms(1) by (simp add: kvs_def)
  have "rank_to_score ur = Inr (dict_comp (map (\<lambda>(i, rank). (rank, f i)) (enumerate 0 ur)))"
    using assms(2) unfolding rank_to_score_def f_def by simp
  then have r: "rank_to_score ur = Inr (dict_comp kvs)"
    by (simp only: enumerate_scores_zip kvs_def)
  have "map_of kvs (ur ! i) = Some (map f [0..<length ur] ! i)"
    unfolding kvs_def using assms by (intro map_of_zip_nth) simp_all
  then have "map_of (dict_comp kvs) (ur ! i) = Some (f i)"
    using assms(3) by (simp add: map_of_dict_comp_distinct [OF d])
  moreover have "dom (map_of (dict_comp kvs)) = set ur"
    unfolding map_of_dict_comp_distinct [OF d] by (simp add: kvs_def dom_map_of_zip)
  ultimately show ?thesis using r unfolding f_def by blast
qed

lemma doctype_scores_total:
  assumes "snd ` set items \<subseteq> dom (map_of r2s)"
  shows "doctype_scores r2s items =
         Inr (map (\<lambda>(name, rank). (name, the (map_of r2s rank))) items)"
  using assms
  by (induction items) (auto simp: getitem_def split: option.splits)

text \<open>
  With \<open>k \<ge> 2\<close> distinct ranks, a doctype whose rank is the \<open>i\<close>-th smallest scores
  \<open>1 - i / (k - 1)\<close>.
\<close>

lemma doctype_boost_formula:
  assumes cfg: "DOCTYPE_RANKING cfg = Some dr"
    and keys: "distinct (map fst dr)"
    and k: "2 \<le> length (unique_ranks dr)"
    and i: "i < length (unique_ranks dr)"
    and bd: "bib_data rec = Some bd"
    and rank: "map_of dr (lower (case bd_doctype bd of None \<Rightarrow> [] | Some d \<Rightarrow> d)) =
               Some (unique_ranks dr ! i)"
  shows "compute_doctype_boost cfg rec =
         Inr (1 - real i / real_of_int (int (length (unique_ranks dr)) - 1))"
proof -
  let ?ur = "unique_ranks dr"
  let ?doctype = "lower (case bd_doctype bd of None \<Rightarrow> [] | Some d \<Rightarrow> d)"
  obtain r2s where r2s: "rank_to_score ?ur = Inr r2s"
      "map_of r2s (?ur ! i) = Some (1 - real i / real_of_int (int (length ?ur) - 1))"
      "dom (map_of r2s) = set ?ur"
    using rank_to_score_nth [OF unique_ranks_distinct k i] by blast
  let ?scores = "map (\<lambda>(name, rank). (name, the (map_of r2s rank))) dr"
  have sc: "doctype_scores r2s dr = Inr ?scores"
    by (rule doctype_scores_total) (simp add: r2s(3) set_unique_ranks)
  have fs: "map fst ?scores = map fst dr"
    by (simp add: case_prod_beta comp_def)
  have "map_of ?scores ?doctype = Some (the (map_of r2s (?ur ! i)))"
    using rank by (simp add: map_of_map)
  moreover have "distinct (map fst ?scores)"
    using keys by (simp only: fs)
  ultimately have "map_of (dict_comp ?scores) ?doctype =
                   Some (1 - real i / real_of_int (int (length ?ur) - 1))"
    by (simp only: map_of_dict_comp_distinct r2s(2) option.sel)
  moreover have "dr \<noteq> []" using rank by auto
  ultimately show ?thesis
    using cfg bd r2s(1) sc by (simp add: compute_doctype_boost_def)
qed

text \<open>
  Claim C3, at the input where the code departs from it. With
  \<^verbatim>\<open>DOCTYPE_RANKING = {"article": 1}\<close>, one distinct rank, \<^verbatim>\<open>compute_doctype_boost\<close>
  raises \<^verbatim>\<open>ZeroDivisionError\<close> for an article instead of returning 1.0, and so does
  the scoring call.
\<close>

theorem single_rank_raises:
  "unique_ranks [(''article'', 1)] = [1] \<and>
   compute_doctype_boost config_single_rank example_record = Inl ZeroDivisionError \<and>
   compute_boost_factors config_single_rank example_now example_record = Inl ZeroDivisionError"
  by code_simp


section \<open>Boost factor weights\<close>

lemma weighted_sum_empty: "weighted_sum bfs [] = Inl KeyError"
  by (simp add: weighted_sum_def getitem_def split: sum.splits)

text \<open>
  Without \<^verbatim>\<open>BOOST_FACTOR_WEIGHTS\<close>, or with weights whose sum is 0, the scoring call
  returns no value, for every record.
\<close>

lemma compute_boost_factors_no_weights:
  assumes "BOOST_FACTOR_WEIGHTS cfg = None \<or> BOOST_FACTOR_WEIGHTS cfg = Some []"
  shows "isl (compute_boost_factors cfg now rec)"
proof -
  have "normalized_weights [] = Inr []"
    by (simp add: normalized_weights_def dict_comp_def dict_update_def)
  then show ?thesis
    using assms
    by (auto simp: compute_boost_factors_def weighted_sum_empty split: sum.splits)
qed

lemma compute_boost_factors_zero_sum:
  assumes "BOOST_FACTOR_WEIGHTS cfg = Some ws" and "ws \<noteq> []" and "sum_list (map snd ws) = 0"
  shows "isl (compute_boost_factors cfg now rec)"
  using assms
  by (auto simp: compute_boost_factors_def normalized_weights_def split: sum.splits)

text \<open>
  \<^verbatim>\<open>compute_final_boost\<close> has both fallbacks: the default weights give
  \<open>0.6 * 1 + 0.4 * 1 + 0 * 0.5 = 1\<close>, and weights that sum to 0 give the mean
  \<open>(1 + 1 + 0.5) / 3\<close>.
\<close>

lemma compute_final_boost_fallbacks:
  "map_option (\<lambda>fb. map_of fb ''astronomy_final_boost'')
     (case compute_final_boost config_without_weights
             [(''refereed_boost'', 1), (''doctype_boost'', 1), (''recency_boost'', 1 / 2)]
             example_record of
        Inl e \<Rightarrow> None | Inr fb \<Rightarrow> Some fb) = Some (Some 1) \<and>
   map_option (\<lambda>fb. map_of fb ''astronomy_final_boost'')
     (case compute_final_boost config_zero_weights
             [(''refereed_boost'', 1), (''doctype_boost'', 1), (''recency_boost'', 1 / 2)]
             example_record of
        Inl e \<Rightarrow> None | Inr fb \<Rightarrow> Some fb) = Some (Some (5 / 6))"
  by code_simp

text \<open>
  Claim C2, at the inputs where the code departs from it. Without
  \<^verbatim>\<open>BOOST_FACTOR_WEIGHTS\<close> in the configuration \<^verbatim>\<open>compute_boost_factors\<close> raises
  \<^verbatim>\<open>KeyError\<close> instead of using the default weights, and with weights that are all 0 it
  raises \<^verbatim>\<open>ZeroDivisionError\<close> instead of returning the mean of the three boosts.
\<close>

theorem missing_weights_raise:
  "BOOST_FACTOR_WEIGHTS config_without_weights = None \<and>
   compute_boost_factors config_without_weights example_now example_record = Inl KeyError \<and>
   BOOST_FACTOR_WEIGHTS config_zero_weights =
     Some [(''refereed_boost'', 0), (''doctype_boost'', 0), (''recency_boost'', 0)] \<and>
   compute_boost_factors config_zero_weights example_now example_record = Inl ZeroDivisionError"
  by code_simp

text \<open>
  In exact arithmetic the weighted sum of boosts in \<open>[0, 1]\<close> under weights that are not
  negative lies in \<open>[0, 1]\<close>. The floating-point sum of the code is not covered: there
  the rounded normalised weights can add up to more than 1.
\<close>

lemma normalized_weights_lookup:
  assumes "distinct (map fst ws)" and "normalized_weights ws = Inr nw"
  shows "map_of nw k = map_option (\<lambda>v. v / sum_list (map snd ws)) (map_of ws k)"
proof -
  let ?kvs = "map (\<lambda>(k, v). (k, v / sum_list (map snd ws))) ws"
  have fs: "map fst ?kvs = map fst ws"
    by (simp add: case_prod_beta comp_def)
  have "distinct (map fst ?kvs)"
    using assms(1) by (simp only: fs)
  moreover have "nw = dict_comp ?kvs"
    using assms(2) by (simp add: normalized_weights_def Let_def split: if_splits)
  ultimately show ?thesis
    by (simp only: map_of_dict_comp_distinct map_of_map comp_apply)
qed

lemma three_weights_le_total:
  fixes ws :: "(string, real) dict"
  assumes d: "distinct (map fst ws)" and nonneg: "\<forall>(k, v) \<in> set ws. 0 \<le> v"
    and l: "map_of ws k1 = Some w1" "map_of ws k2 = Some w2" "map_of ws k3 = Some w3"
    and ne: "k1 \<noteq> k2" "k1 \<noteq> k3" "k2 \<noteq> k3"
  shows "w1 + w2 + w3 \<le> sum_list (map snd ws)"
proof -
  let ?A = "{(k1, w1), (k2, w2), (k3, w3)}"
  have dw: "distinct ws" using d by (simp add: distinct_map)
  have sub: "?A \<subseteq> set ws" using l by (auto dest: map_of_SomeD)
  have "sum snd ?A \<le> sum snd (set ws)"
    using sub nonneg by (intro sum_mono2) auto
  moreover have "sum snd ?A = w1 + w2 + w3" using ne by simp
  moreover have "sum_list (map snd ws) = sum snd (set ws)"
    using dw by (rule sum_list_distinct_conv_sum_set)
  ultimately show ?thesis by simp
qed

lemma exact_weighted_sum_bounds:
  fixes ws :: "(string, real) dict"
  assumes d: "distinct (map fst ws)" and nonneg: "\<forall>(k, v) \<in> set ws. 0 \<le> v"
    and nw: "normalized_weights ws = Inr nw"
    and bf: "weighted_sum [(''refereed_boost'', r), (''doctype_boost'', dt), (''recency_boost'', c)] nw
             = Inr bf"
    and r: "0 \<le> r" "r \<le> 1" and dt: "0 \<le> dt" "dt \<le> 1" and c: "0 \<le> c" "c \<le> 1"
  shows "0 \<le> bf \<and> bf \<le> 1"
proof -
  define T where "T = sum_list (map snd ws)"
  have look: "map_of nw k = map_option (\<lambda>v. v / T) (map_of ws k)" for k
    unfolding T_def by (rule normalized_weights_lookup [OF d nw])
  from bf obtain nr nd nc where n: "map_of nw ''refereed_boost'' = Some nr"
      "map_of nw ''doctype_boost'' = Some nd" "map_of nw ''recency_boost'' = Some nc"
      and bf_eq: "bf = r * nr + dt * nd + c * nc"
    by (auto simp: weighted_sum_def getitem_def split: option.splits)
  from n obtain wr wd wc where w: "map_of ws ''refereed_boost'' = Some wr"
      "map_of ws ''doctype_boost'' = Some wd" "map_of ws ''recency_boost'' = Some wc"
      and n_eq: "nr = wr / T" "nd = wd / T" "nc = wc / T"
    by (auto simp: look)
  have w0: "0 \<le> wr" "0 \<le> wd" "0 \<le> wc"
    using w nonneg by (auto dest!: map_of_SomeD)
  have le: "wr + wd + wc \<le> T"
    unfolding T_def by (rule three_weights_le_total [OF d nonneg w]) simp_all
  have "ws \<noteq> []" using w(1) by auto
  then have "T \<noteq> 0"
    using nw by (auto simp: normalized_weights_def T_def Let_def split: if_splits)
  with le w0 have T: "0 < T" by simp
  have lo: "0 \<le> bf"
    unfolding bf_eq n_eq using r dt c w0 T by simp
  have "r * wr + dt * wd + c * wc \<le> 1 * wr + 1 * wd + 1 * wc"
    using r dt c w0 by (intro add_mono mult_right_mono) simp_all
  also have "\<dots> \<le> T" using le by simp
  finally have "(r * wr + dt * wd + c * wc) / T \<le> 1"
    using T by simp
  then have "bf \<le> 1"
    unfolding bf_eq n_eq by (simp add: add_divide_distrib)
  with lo show ?thesis by simp
qed

end
